theory Spec2Isabelle
  imports Main "HOL-Library.AList"
begin

section \<open>Documents of the two collections\<close>

text \<open>
  An ObjectId is handled by the controllers through its string form
  (\<^verbatim>\<open>req.params.pid\<close>, \<^verbatim>\<open>req.userData.userId\<close>, \<^verbatim>\<open>place.creator.toString()\<close>).
\<close>

type_synonym oid = string

text \<open>
  \<^verbatim>\<open>image: { url, fileId }\<close> of both schemas. A path that a query has not selected is
  absent from the loaded document (\<open>None\<close>); \<^verbatim>\<open>fileId\<close> is declared \<^verbatim>\<open>select: false\<close>
  in both schemas.
\<close>

record image =
  url :: "string option"
  fileId :: "string option"

record location =
  lat :: string
  lng :: string

text \<open>The value that \<^verbatim>\<open>getCoordinatesForAddress\<close> resolves to: the coordinates and the address.\<close>

record coordinates = location +
  address :: string

text \<open>\<^verbatim>\<open>userSchema\<close> (models/user.js); \<^verbatim>\<open>password\<close> is declared \<^verbatim>\<open>select: false\<close>.\<close>

record user =
  name :: string
  email :: string
  password :: "string option"
  image :: image
  places :: "oid list"

text \<open>\<^verbatim>\<open>placeSchema\<close> (models/place.js).\<close>

record place =
  title :: string
  description :: string
  image :: image
  address :: string
  location :: location
  creator :: oid

section \<open>Values sent to the caller\<close>

datatype json =
  JNull
  | JUndefined
  | JString string
  | JArray "json list"
  | JObject "(string \<times> json) list"

text \<open>\<^verbatim>\<open>new HttpError(message, code)\<close>.\<close>

datatype http_error = HttpError string nat

text \<open>
  What a handler does with a request: \<^verbatim>\<open>res.status(s).json(body)\<close>, \<^verbatim>\<open>next(error)\<close>, or
  an exception that leaves the \<^verbatim>\<open>async\<close> handler uncaught (with its message): the handler
  itself then calls neither \<^verbatim>\<open>res\<close> nor \<^verbatim>\<open>next\<close>.
\<close>

datatype outcome =
  Responded nat json
  | NextError http_error
  | UnhandledRejection string

text \<open>
  \<^verbatim>\<open>res.json\<close> serialises with \<^verbatim>\<open>JSON.stringify\<close>: a member of an object whose value is
  \<^verbatim>\<open>undefined\<close> is left out, an \<^verbatim>\<open>undefined\<close> element of an array becomes \<^verbatim>\<open>null\<close>.
\<close>

primrec res_json :: "json \<Rightarrow> json" where
  "res_json JNull = JNull"
| "res_json JUndefined = JUndefined"
| "res_json (JString s) = JString s"
| "res_json (JArray xs) =
     JArray (map (\<lambda>v. if v = JUndefined then JNull else v) (map res_json xs))"
| "res_json (JObject kvs) =
     JObject (filter (\<lambda>(k, v). v \<noteq> JUndefined) (map (map_prod id res_json) kvs))"

text \<open>Whether a key occurs in a value, at any depth.\<close>

primrec has_key :: "string \<Rightarrow> json \<Rightarrow> bool" where
  "has_key k JNull = False"
| "has_key k JUndefined = False"
| "has_key k (JString s) = False"
| "has_key k (JArray xs) = list_ex id (map (has_key k) xs)"
| "has_key k (JObject kvs) =
     list_ex (\<lambda>(k', b). k' = k \<or> b) (map (map_prod id (has_key k)) kvs)"

text \<open>Reading a property of an object: \<^verbatim>\<open>undefined\<close> when it is not there.\<close>

fun get_prop :: "string \<Rightarrow> json \<Rightarrow> json" where
  "get_prop k (JObject kvs) = (case map_of kvs k of None \<Rightarrow> JUndefined | Some v \<Rightarrow> v)"
| "get_prop k v = JUndefined"

text \<open>The object spread \<^verbatim>\<open>{ ...obj, k: v }\<close>.\<close>

fun spread_with :: "json \<Rightarrow> string \<Rightarrow> json \<Rightarrow> json" where
  "spread_with (JObject kvs) k v = JObject (AList.update k v kvs)"
| "spread_with other k v = JObject [(k, v)]"

text \<open>
  \<^verbatim>\<open>doc.toObject({ getters: true })\<close>: the selected paths and the \<^verbatim>\<open>id\<close> getter (the
  version key is left out). A populated path is given as the value it serialises to.
\<close>

definition image_toObject :: "image \<Rightarrow> json" where
  "image_toObject img =
     JObject ((case url img of None \<Rightarrow> [] | Some u \<Rightarrow> [(''url'', JString u)]) @
              (case fileId img of None \<Rightarrow> [] | Some f \<Rightarrow> [(''fileId'', JString f)]))"

definition place_toObject :: "oid \<Rightarrow> place \<Rightarrow> json \<Rightarrow> json" where
  "place_toObject i p creator_value =
     JObject [(''_id'', JString i),
              (''title'', JString (title p)),
              (''description'', JString (description p)),
              (''image'', image_toObject (image p)),
              (''address'', JString (address p)),
              (''location'', JObject [(''lat'', JString (lat (location p))),
                                      (''lng'', JString (lng (location p)))]),
              (''creator'', creator_value),
              (''id'', JString i)]"

definition user_toObject :: "oid \<Rightarrow> user \<Rightarrow> json list \<Rightarrow> json" where
  "user_toObject i u places_value =
     JObject ([(''_id'', JString i),
               (''name'', JString (name u)),
               (''email'', JString (email u))] @
              (case password u of None \<Rightarrow> [] | Some pw \<Rightarrow> [(''password'', JString pw)]) @
              [(''image'', image_toObject (user.image u)),
               (''places'', JArray places_value),
               (''id'', JString i)])"

section \<open>The collections and the collaborators\<close>

text \<open>
  A collection is the list of its documents, each with its \<^verbatim>\<open>_id\<close>. The \<^verbatim>\<open>_id\<close> is
  unique within a collection: an insert with an \<^verbatim>\<open>_id\<close> that is taken fails (duplicate
  key), and an update or a removal by \<^verbatim>\<open>_id\<close> addresses the documents with that \<^verbatim>\<open>_id\<close>.
\<close>

definition findById :: "oid \<Rightarrow> (oid \<times> 'a) list \<Rightarrow> 'a option" where
  "findById i c = map_of c i"

definition insertOne :: "oid \<Rightarrow> 'a \<Rightarrow> (oid \<times> 'a) list \<Rightarrow> (oid \<times> 'a) list option" where
  "insertOne i d c = (if i \<in> fst ` set c then None else Some (c @ [(i, d)]))"

definition updateOne :: "oid \<Rightarrow> ('a \<Rightarrow> 'a) \<Rightarrow> (oid \<times> 'a) list \<Rightarrow> (oid \<times> 'a) list" where
  "updateOne i f c = map (\<lambda>(k, d). if k = i then (k, f d) else (k, d)) c"

definition deleteOne :: "oid \<Rightarrow> (oid \<times> 'a) list \<Rightarrow> (oid \<times> 'a) list" where
  "deleteOne i c = filter (\<lambda>(k, d). k \<noteq> i) c"

text \<open>
  The default projection of a query: the paths declared \<^verbatim>\<open>select: false\<close> are not loaded.
\<close>

definition select_place :: "place \<Rightarrow> place" where
  "select_place p = p\<lparr>image := (image p)\<lparr>fileId := None\<rparr>\<rparr>"

definition select_user :: "user \<Rightarrow> user" where
  "select_user u =
     \<lparr>name = name u, email = email u, password = None,
      image = (user.image u)\<lparr>fileId := None\<rparr>, places = places u\<rparr>"

text \<open>The awaited calls on the database, each of which may throw.\<close>

datatype db_call =
  Place_find
  | Place_findById
  | Place_save
  | Place_remove
  | User_findOne
  | User_findById
  | User_save
  | startSession
  | startTransaction
  | commitTransaction

text \<open>The calls a handler makes on its collaborators, in the order it makes them.\<close>

datatype call =
  GetCoordinates string
  | ImagekitUpload string string
  | ImagekitDeleteFile "string option"
  | Db db_call

text \<open>
  What the collaborators answer during one request. \<open>getCoordinatesForAddress\<close>
  (util/location) resolves to coordinates or throws an error, which the handler passes on
  as it is. \<open>imagekit_upload\<close>, given the file and the file name, resolves to the url and
  the file id or throws an error with a message. \<open>imagekit_deleteFile\<close> tells whether
  the deletion reports an error to its callback. \<open>new_ObjectId\<close> is the \<^verbatim>\<open>_id\<close> that
  \<^verbatim>\<open>new Place\<close> generates. \<open>throws\<close> tells which database calls throw (a malformed id
  that does not cast, a failed validation, a lost connection).
\<close>

record env =
  getCoordinatesForAddress :: "string \<Rightarrow> http_error + coordinates"
  imagekit_upload :: "string \<Rightarrow> string \<Rightarrow> string + (string \<times> string)"
  imagekit_deleteFile :: "string option \<Rightarrow> bool"
  new_ObjectId :: oid
  throws :: "db_call \<Rightarrow> bool"

text \<open>
  The state outside the handler: the two collections as committed, the files the image
  store holds, and the calls made so far. Console output is not part of it.
\<close>

record world =
  Place_docs :: "(oid \<times> place) list"
  User_docs :: "(oid \<times> user) list"
  imagekit_files :: "string list"
  trace :: "call list"

definition called :: "call \<Rightarrow> world \<Rightarrow> world" where
  "called c w = w\<lparr>trace := trace w @ [c]\<rparr>"

section \<open>Helpers of the handlers\<close>

text \<open>An array inside a template literal: its elements joined by commas.\<close>

fun join_comma :: "string list \<Rightarrow> string" where
  "join_comma [] = []"
| "join_comma [x] = x"
| "join_comma (x # y # ys) = x @ '','' @ join_comma (y # ys)"

definition invalid_input :: "string list \<Rightarrow> http_error" where
  "invalid_input errorInputs = HttpError (''Invalid input of '' @ join_comma errorInputs) 422"

text \<open>\<^verbatim>\<open>String.prototype.toLowerCase\<close> on the letters A to Z; other characters stay.\<close>

definition toLowerCase :: "string \<Rightarrow> string" where
  "toLowerCase s =
     map (\<lambda>c. let n = (of_char c :: nat) in
               if 65 \<le> n \<and> n \<le> 90 then char_of (n + 32) else c) s"

text \<open>The message of the TypeError raised by reading a property of \<^verbatim>\<open>null\<close> or \<^verbatim>\<open>undefined\<close>.\<close>

definition cannot_read :: "string \<Rightarrow> string \<Rightarrow> string" where
  "cannot_read what property =
     ''Cannot read properties of '' @ what @ '' (reading '' @ [CHR 0x27] @ property @
     [CHR 0x27] @ '')''"

text \<open>\<^verbatim>\<open>!places\<close> on the array a query resolves to: an array, empty or not, is truthy.\<close>

definition not_array :: "'a list \<Rightarrow> bool" where
  "not_array xs = False"

text \<open>\<^verbatim>\<open>populate("creator")\<close>: the referenced user as loaded by a query, \<^verbatim>\<open>null\<close> if there is none.\<close>

definition populate_creator :: "(oid \<times> user) list \<Rightarrow> place \<Rightarrow> user option" where
  "populate_creator us p = map_option select_user (findById (creator p) us)"

text \<open>\<^verbatim>\<open>populate("places")\<close>: the referenced places that exist, as loaded by a query.\<close>

definition populate_places :: "(oid \<times> place) list \<Rightarrow> user \<Rightarrow> (oid \<times> place) list" where
  "populate_places ps u =
     List.map_filter (\<lambda>i. map_option (\<lambda>p. (i, select_place p)) (findById i ps)) (places u)"

section \<open>The read handlers\<close>

definition getAllPlaces :: "env \<Rightarrow> world \<Rightarrow> outcome \<times> world" where
  "getAllPlaces e w0 =
     (let w1 = called (Db Place_find) w0 in
      if throws e Place_find
      then (NextError (HttpError ''Could not find any place.'' 404), w1)
      else
        let places' = map (\<lambda>(i, p). (i, select_place p, populate_creator (User_docs w1) p))
                          (Place_docs w1)
        in if not_array places'
           then (NextError (HttpError ''Could not find any place.'' 404), w1)
           else
             (Responded 200 (res_json (JObject [(''places'',
                JArray (map (\<lambda>(i, p, c).
                  place_toObject i p
                    (case c of None \<Rightarrow> JNull
                     | Some u \<Rightarrow> user_toObject (creator p) u (map JString (places u))))
                  places'))])), w1))"

definition getPlaceById :: "env \<Rightarrow> oid \<Rightarrow> world \<Rightarrow> outcome \<times> world" where
  "getPlaceById e placeId w0 =
     (let w1 = called (Db Place_findById) w0 in
      if throws e Place_findById
      then (NextError (HttpError ''Something went wrong, could not find a place.'' 500), w1)
      else
        case findById placeId (Place_docs w1) of
          None \<Rightarrow>
            (NextError (HttpError ''Could not find a place for the provided place id.'' 404), w1)
        | Some p \<Rightarrow>
            (Responded 200 (res_json (JObject [(''place'',
               place_toObject placeId (select_place p) (JString (creator p)))])), w1))"

definition getPlacesByUserId :: "env \<Rightarrow> string \<Rightarrow> world \<Rightarrow> outcome \<times> world" where
  "getPlacesByUserId e username w0 =
     (let w1 = called (Db User_findOne) w0 in
      if throws e User_findOne
      then (NextError (HttpError ''Fetching places failed, please try again.'' 404), w1)
      else
        case find (\<lambda>(i, u). name u = username) (User_docs w1) of
          None \<Rightarrow> (NextError (HttpError ''Could not find a place with that user id.'' 404), w1)
        | Some (i, u) \<Rightarrow>
            let userWithPlaces = select_user u;
                populated = populate_places (Place_docs w1) userWithPlaces
            in if length populated = 0
               then (NextError (HttpError ''Could not find a place with that user id.'' 404), w1)
               else
                 (Responded 200 (res_json (JObject [(''data'',
                    user_toObject i userWithPlaces
                      (map (\<lambda>(j, p). place_toObject j p (JString (creator p))) populated))])),
                  w1))"

section \<open>createPlace\<close>

text \<open>
  The write phase, lines 150 to 164. The writes made with \<^verbatim>\<open>{ session: sess }\<close> are staged
  in the transaction and reach the collections when \<^verbatim>\<open>commitTransaction\<close> returns; when a
  step throws, the handler leaves the session behind and nothing staged is applied.
  \<^verbatim>\<open>user.save\<close> writes the modified path of the loaded user, \<^verbatim>\<open>places\<close>. The result tells
  whether the \<^verbatim>\<open>try\<close> block completed.
\<close>

definition createPlace_transaction ::
  "env \<Rightarrow> oid \<Rightarrow> place \<Rightarrow> oid \<Rightarrow> user \<Rightarrow> world \<Rightarrow> bool \<times> world" where
  "createPlace_transaction e i createdPlace userId user w0 =
     (let w1 = called (Db startSession) w0 in
      if throws e startSession then (False, w1) else
      let w2 = called (Db startTransaction) w1 in
      if throws e startTransaction then (False, w2) else
      let w3 = called (Db Place_save) w2 in
      case (if throws e Place_save then None else insertOne i createdPlace (Place_docs w3)) of
        None \<Rightarrow> (False, w3)
      | Some staged_places \<Rightarrow>
          let user' = user\<lparr>places := places user @ [i]\<rparr>;
              w4 = called (Db User_save) w3 in
          if throws e User_save then (False, w4) else
          let staged_users = updateOne userId (\<lambda>d. d\<lparr>places := places user'\<rparr>) (User_docs w4);
              w5 = called (Db commitTransaction) w4 in
          if throws e commitTransaction then (False, w5)
          else (True, w5\<lparr>Place_docs := staged_places, User_docs := staged_users\<rparr>))"

definition createPlace ::
  "env \<Rightarrow> string list \<Rightarrow> string \<Rightarrow> string \<Rightarrow> string \<Rightarrow> string option \<Rightarrow> oid \<Rightarrow> world
   \<Rightarrow> outcome \<times> world" where
  "createPlace e errors title' description' address' file userId w0 =
     (if errors \<noteq> [] then (NextError (invalid_input errors), w0) else
      let w1 = called (GetCoordinates address') w0 in
      case getCoordinatesForAddress e address' of
        Inl error \<Rightarrow> (NextError error, w1)
      | Inr coordinates \<Rightarrow>
          (case file of
             None \<Rightarrow> (NextError (HttpError (cannot_read ''undefined'' ''buffer'') 500), w1)
           | Some buffer \<Rightarrow>
               let fileName = toLowerCase title';
                   w2 = called (ImagekitUpload buffer fileName) w1 in
               (case imagekit_upload e buffer fileName of
                  Inl err_message \<Rightarrow> (NextError (HttpError err_message 500), w2)
                | Inr (imageUrl, req_fileId) \<Rightarrow>
                    let w3 = w2\<lparr>imagekit_files := imagekit_files w2 @ [req_fileId]\<rparr>;
                        createdPlace =
                          \<lparr>title = title', description = description',
                           image = \<lparr>url = Some imageUrl, fileId = Some req_fileId\<rparr>,
                           address = coordinates.address coordinates,
                           location = \<lparr>lat = lat coordinates, lng = lng coordinates\<rparr>,
                           creator = userId\<rparr>;
                        w4 = called (Db User_findById) w3 in
                    if throws e User_findById
                    then (NextError (HttpError ''Could not find a user with the provided id.'' 404), w4)
                    else
                      (case findById userId (User_docs w4) of
                         None \<Rightarrow>
                           (NextError (HttpError ''Could not find a user with the provided id.'' 404),
                            w4)
                       | Some u \<Rightarrow>
                           (case createPlace_transaction e (new_ObjectId e) createdPlace userId
                                   (select_user u) w4 of
                              (False, w5) \<Rightarrow>
                                (NextError (HttpError ''Creating place failed, please try again.'' 500),
                                 w5)
                            | (True, w5) \<Rightarrow>
                                let place = place_toObject (new_ObjectId e) createdPlace
                                              (JString userId);
                                    place' = spread_with place ''image''
                                               (JObject [(''url'', get_prop ''url''
                                                                    (get_prop ''image'' place)),
                                                         (''fileId'', JUndefined)])
                                in (Responded 201 (res_json (JObject [(''place'', place')])),
                                    w5))))))"

section \<open>updatePlace\<close>

text \<open>
  Between the \<^verbatim>\<open>try\<close> around \<^verbatim>\<open>Place.findById\<close> and the comparison of
  \<^verbatim>\<open>place.creator\<close> there is no test of \<^verbatim>\<open>place\<close>: when the query resolves to \<^verbatim>\<open>null\<close>,
  reading \<^verbatim>\<open>place.creator\<close> raises a TypeError outside any \<^verbatim>\<open>try\<close>. \<^verbatim>\<open>place.save\<close>
  writes the modified paths, \<^verbatim>\<open>title\<close> and \<^verbatim>\<open>description\<close>.
\<close>

definition updatePlace ::
  "env \<Rightarrow> string list \<Rightarrow> oid \<Rightarrow> string \<Rightarrow> string \<Rightarrow> oid \<Rightarrow> world \<Rightarrow> outcome \<times> world" where
  "updatePlace e errors placeId title' description' userId w0 =
     (if errors \<noteq> [] then (NextError (invalid_input errors), w0) else
      let w1 = called (Db Place_findById) w0 in
      if throws e Place_findById
      then (NextError (HttpError ''Could not find a place for the provided place id.'' 500), w1)
      else
        case findById placeId (Place_docs w1) of
          None \<Rightarrow> (UnhandledRejection (cannot_read ''null'' ''creator''), w1)
        | Some p \<Rightarrow>
            let place = select_place p in
            if creator place \<noteq> userId
            then (NextError (HttpError ''You are not allowed to edit this place.'' 401), w1)
            else
              let place' = place\<lparr>title := title', description := description'\<rparr>;
                  w2 = called (Db Place_save) w1 in
              if throws e Place_save
              then (NextError (HttpError ''Something went wrong, could not update place.'' 500), w2)
              else
                (Responded 200 (res_json (JObject [(''place'',
                   place_toObject placeId place' (JString (creator place')))])),
                 w2\<lparr>Place_docs :=
                      updateOne placeId
                        (\<lambda>d. d\<lparr>title := title place', description := description place'\<rparr>)
                        (Place_docs w2)\<rparr>))"

section \<open>deletePlace\<close>

text \<open>
  The write phase, lines 249 to 262: \<^verbatim>\<open>place.remove\<close>, then \<^verbatim>\<open>pull\<close> on the places of the loaded
  creator (every occurrence goes), then \<^verbatim>\<open>place.creator.save\<close>, then the commit.
\<close>

definition deletePlace_transaction ::
  "env \<Rightarrow> oid \<Rightarrow> oid \<Rightarrow> user \<Rightarrow> world \<Rightarrow> bool \<times> world" where
  "deletePlace_transaction e placeId creatorId place_creator w0 =
     (let w1 = called (Db startSession) w0 in
      if throws e startSession then (False, w1) else
      let w2 = called (Db startTransaction) w1 in
      if throws e startTransaction then (False, w2) else
      let w3 = called (Db Place_remove) w2 in
      if throws e Place_remove then (False, w3) else
      let staged_places = deleteOne placeId (Place_docs w3);
          creator' = place_creator\<lparr>places := removeAll placeId (places place_creator)\<rparr>;
          w4 = called (Db User_save) w3 in
      if throws e User_save then (False, w4) else
      let staged_users = updateOne creatorId (\<lambda>d. d\<lparr>places := places creator'\<rparr>) (User_docs w4);
          w5 = called (Db commitTransaction) w4 in
      if throws e commitTransaction then (False, w5)
      else (True, w5\<lparr>Place_docs := staged_places, User_docs := staged_users\<rparr>))"

text \<open>
  The query selects \<^verbatim>\<open>image.fileId\<close> and populates \<^verbatim>\<open>creator\<close>; \<^verbatim>\<open>place.creator.id\<close> is the
  \<^verbatim>\<open>_id\<close> of the populated user, and reading it raises a TypeError when the populated
  creator is \<^verbatim>\<open>null\<close>. \<^verbatim>\<open>imagekit.deleteFile\<close> is called after the commit and its error
  only reaches the callback.
\<close>

definition deletePlace :: "env \<Rightarrow> oid \<Rightarrow> oid \<Rightarrow> world \<Rightarrow> outcome \<times> world" where
  "deletePlace e placeId userId w0 =
     (let w1 = called (Db Place_findById) w0 in
      if throws e Place_findById
      then (NextError (HttpError ''Could not find a place for the provided id.'' 404), w1)
      else
        case findById placeId (Place_docs w1) of
          None \<Rightarrow> (NextError (HttpError ''Could not find a place for the provided id.'' 404), w1)
        | Some p \<Rightarrow>
            (case populate_creator (User_docs w1) p of
               None \<Rightarrow> (UnhandledRejection (cannot_read ''null'' ''id''), w1)
             | Some place_creator \<Rightarrow>
                 if creator p \<noteq> userId
                 then (NextError (HttpError ''You are not allowed to delete this place.'' 401), w1)
                 else
                   let fileId' = fileId (image p) in
                   (case deletePlace_transaction e placeId (creator p) place_creator w1 of
                      (False, w2) \<Rightarrow>
                        (NextError (HttpError ''Could not find a place for the provided id.'' 500), w2)
                    | (True, w2) \<Rightarrow>
                        let w3 = called (ImagekitDeleteFile fileId') w2;
                            w4 = (if imagekit_deleteFile e fileId' then w3
                                  else w3\<lparr>imagekit_files :=
                                            filter (\<lambda>f. Some f \<noteq> fileId') (imagekit_files w3)\<rparr>)
                        in (Responded 200 (res_json (JObject [(''message'',
                              JString ''Deleted place.'')])), w4))))"

section \<open>Referential integrity\<close>

text \<open>
  Every place names as its creator a user whose places hold the id of the place, and every
  id in the places of a user is the id of a place whose creator is that user.
\<close>

definition integrity_db :: "(oid \<times> place) list \<Rightarrow> (oid \<times> user) list \<Rightarrow> bool" where
  "integrity_db ps us =
     ((\<forall>(i, p) \<in> set ps.
         case findById (creator p) us of None \<Rightarrow> False | Some u \<Rightarrow> i \<in> set (places u)) \<and>
      (\<forall>(j, u) \<in> set us. \<forall>i \<in> set (places u).
         case findById i ps of None \<Rightarrow> False | Some p \<Rightarrow> creator p = j))"

definition integrity :: "world \<Rightarrow> bool" where
  "integrity w = integrity_db (Place_docs w) (User_docs w)"

text \<open>
  An ObjectId that occurs nowhere in the database, as the one that \<^verbatim>\<open>new Place\<close>
  generates.
\<close>

definition unused_ObjectId :: "oid \<Rightarrow> world \<Rightarrow> bool" where
  "unused_ObjectId i w =
     (i \<notin> fst ` set (Place_docs w) \<and> (\<forall>(j, u) \<in> set (User_docs w). i \<notin> set (places u)))"

text \<open>Neither the storage handle nor the password is a key of the value.\<close>

definition no_secret :: "json \<Rightarrow> bool" where
  "no_secret v = (\<not> has_key ''fileId'' v \<and> \<not> has_key ''password'' v)"

text \<open>Whether the handler sent a response.\<close>

definition responded :: "outcome \<Rightarrow> bool" where
  "responded out = (case out of Responded s b \<Rightarrow> True | _ \<Rightarrow> False)"

text \<open>The body of a response; \<^verbatim>\<open>undefined\<close> when none was sent.\<close>

definition body_of :: "outcome \<Rightarrow> json" where
  "body_of out = (case out of Responded s b \<Rightarrow> b | _ \<Rightarrow> JUndefined)"

section \<open>A database to run the handlers on\<close>

definition office :: place where
  "office =
     \<lparr>title = ''Office'', description = ''HQ'',
      image = \<lparr>url = Some ''https://ik.imagekit.io/places/office'', fileId = Some ''f1''\<rparr>,
      address = ''1600 Amphitheatre Pkwy'',
      location = \<lparr>lat = ''37.422'', lng = ''-122.084''\<rparr>,
      creator = ''u1''\<rparr>"

definition ann :: user where
  "ann = \<lparr>name = ''ann'', email = ''ann@example.org'', password = Some ''secret1'',
          image = \<lparr>url = None, fileId = None\<rparr>, places = [''p1'']\<rparr>"

definition bob :: user where
  "bob = \<lparr>name = ''bob'', email = ''bob@example.org'', password = Some ''secret2'',
          image = \<lparr>url = Some ''https://ik.imagekit.io/places/bob'', fileId = Some ''f0''\<rparr>,
          places = []\<rparr>"

definition world0 :: world where
  "world0 =
     \<lparr>Place_docs = [(''p1'', office)], User_docs = [(''u1'', ann), (''u2'', bob)],
      imagekit_files = [''f0'', ''f1''], trace = []\<rparr>"

definition empty_world :: world where
  "empty_world = \<lparr>Place_docs = [], User_docs = [], imagekit_files = [], trace = []\<rparr>"

definition env0 :: env where
  "env0 =
     \<lparr>getCoordinatesForAddress =
        (\<lambda>a. Inr \<lparr>lat = ''48.858'', lng = ''2.294'', coordinates.address = ''Champ de Mars''\<rparr>),
      imagekit_upload = (\<lambda>buffer fileName. Inr (''https://ik.imagekit.io/places/tower'', ''f2'')),
      imagekit_deleteFile = (\<lambda>f. False),
      new_ObjectId = ''p2'',
      throws = (\<lambda>c. False)\<rparr>"

text \<open>The same collaborators, with \<^verbatim>\<open>user.save\<close> throwing.\<close>

definition env_user_save_fails :: env where
  "env_user_save_fails = env0\<lparr>throws := (\<lambda>c. c = User_save)\<rparr>"

text \<open>The same collaborators, with the geocoder or the upload failing.\<close>

definition env_geocode_fails :: env where
  "env_geocode_fails =
     env0\<lparr>getCoordinatesForAddress := (\<lambda>a. Inl (HttpError ''No location for that address.'' 422))\<rparr>"

definition env_upload_fails :: env where
  "env_upload_fails = env0\<lparr>imagekit_upload := (\<lambda>buffer fileName. Inl ''Upload failed'')\<rparr>"

section \<open>Facts about the collections\<close>

lemmas example_defs = env0_def world0_def empty_world_def office_def ann_def bob_def

lemma findById_updateOne:
  "findById k (updateOne i f c) = map_option (\<lambda>d. if k = i then f d else d) (findById k c)"
  by (induction c) (auto simp: findById_def updateOne_def)

lemma findById_deleteOne:
  "findById k (deleteOne i c) = (if k = i then None else findById k c)"
  by (induction c) (auto simp: findById_def deleteOne_def)

lemma findById_snoc:
  "findById k (c @ [(i, d)]) =
     (case findById k c of Some v \<Rightarrow> Some v | None \<Rightarrow> if k = i then Some d else None)"
  by (induction c) (auto simp: findById_def)

lemma findById_None_iff: "findById i c = None \<longleftrightarrow> i \<notin> fst ` set c"
  by (simp add: findById_def map_of_eq_None_iff)

lemma findById_SomeD: "findById i c = Some d \<Longrightarrow> (i, d) \<in> set c"
  by (simp add: findById_def map_of_SomeD)

lemma in_set_updateOne:
  "(k, d) \<in> set (updateOne i f c) \<longleftrightarrow>
     (k \<noteq> i \<and> (k, d) \<in> set c) \<or> (k = i \<and> (\<exists>d0. (i, d0) \<in> set c \<and> d = f d0))"
  by (induction c) (auto simp: updateOne_def split: if_splits)

lemma in_set_deleteOne: "(k, d) \<in> set (deleteOne i c) \<longleftrightarrow> k \<noteq> i \<and> (k, d) \<in> set c"
  by (auto simp: deleteOne_def)

section \<open>Referential integrity under the writes\<close>

lemma integrity_db_iff:
  "integrity_db ps us \<longleftrightarrow>
     (\<forall>i p. (i, p) \<in> set ps \<longrightarrow> (\<exists>u. findById (creator p) us = Some u \<and> i \<in> set (places u))) \<and>
     (\<forall>j u i. (j, u) \<in> set us \<longrightarrow> i \<in> set (places u) \<longrightarrow>
        (\<exists>p. findById i ps = Some p \<and> creator p = j))"
proof -
  have A: "(case x of None \<Rightarrow> False | Some u \<Rightarrow> P u) \<longleftrightarrow> (\<exists>u. x = Some u \<and> P u)"
    for x :: "'a option" and P
    by (cases x) auto
  show ?thesis unfolding integrity_db_def A by fastforce
qed

lemma integrity_db_create:
  assumes inv: "integrity_db ps us"
    and new: "i \<notin> fst ` set ps"
    and usr: "findById uid us = Some u"
    and cre: "creator p = uid"
  shows "integrity_db (ps @ [(i, p)]) (updateOne uid (\<lambda>d. d\<lparr>places := places u @ [i]\<rparr>) us)"
proof -
  let ?us = "updateOne uid (\<lambda>d. d\<lparr>places := places u @ [i]\<rparr>) us"
  from inv have P: "\<And>k q. (k, q) \<in> set ps \<Longrightarrow>
      \<exists>v. findById (creator q) us = Some v \<and> k \<in> set (places v)"
    and U: "\<And>j v k. (j, v) \<in> set us \<Longrightarrow> k \<in> set (places v) \<Longrightarrow>
      \<exists>q. findById k ps = Some q \<and> creator q = j"
    by (auto simp: integrity_db_iff)
  have none: "findById i ps = None" using new by (simp add: findById_None_iff)
  have "\<exists>v. findById (creator q) ?us = Some v \<and> k \<in> set (places v)"
    if "(k, q) \<in> set (ps @ [(i, p)])" for k q
  proof (cases "(k, q) \<in> set ps")
    case True
    from P[OF True] obtain v where v: "findById (creator q) us = Some v" "k \<in> set (places v)"
      by blast
    then show ?thesis using usr by (auto simp: findById_updateOne)
  next
    case False
    with that have "k = i" "q = p" by auto
    then show ?thesis using usr cre by (simp add: findById_updateOne)
  qed
  moreover have "\<exists>q. findById k (ps @ [(i, p)]) = Some q \<and> creator q = j"
    if "(j, v) \<in> set ?us" "k \<in> set (places v)" for j v k
  proof -
    from that(1) consider
      (other) "j \<noteq> uid" "(j, v) \<in> set us"
      | (same) d0 where "j = uid" "(uid, d0) \<in> set us" "v = d0\<lparr>places := places u @ [i]\<rparr>"
      by (auto simp: in_set_updateOne)
    then show ?thesis
    proof cases
      case other
      from U[OF other(2) that(2)] show ?thesis by (auto simp: findById_snoc)
    next
      case same
      show ?thesis
      proof (cases "k = i")
        case True
        then show ?thesis using none cre same(1) by (simp add: findById_snoc)
      next
        case False
        with that(2) same(3) have "k \<in> set (places u)" by simp
        from U[OF findById_SomeD[OF usr] this] show ?thesis
          using same(1) by (auto simp: findById_snoc)
      qed
    qed
  qed
  ultimately show ?thesis unfolding integrity_db_iff by blast
qed

lemma integrity_db_update:
  assumes inv: "integrity_db ps us"
  shows "integrity_db (updateOne i (\<lambda>d. d\<lparr>title := t, description := d'\<rparr>) ps) us"
proof -
  let ?ps = "updateOne i (\<lambda>d. d\<lparr>title := t, description := d'\<rparr>) ps"
  from inv have P: "\<And>k q. (k, q) \<in> set ps \<Longrightarrow>
      \<exists>v. findById (creator q) us = Some v \<and> k \<in> set (places v)"
    and U: "\<And>j v k. (j, v) \<in> set us \<Longrightarrow> k \<in> set (places v) \<Longrightarrow>
      \<exists>q. findById k ps = Some q \<and> creator q = j"
    by (auto simp: integrity_db_iff)
  have "\<exists>v. findById (creator q) us = Some v \<and> k \<in> set (places v)"
    if "(k, q) \<in> set ?ps" for k q
  proof -
    from that obtain q0 where "(k, q0) \<in> set ps" "creator q = creator q0"
      by (auto simp: in_set_updateOne)
    with P show ?thesis by simp
  qed
  moreover have "\<exists>q. findById k ?ps = Some q \<and> creator q = j"
    if "(j, v) \<in> set us" "k \<in> set (places v)" for j v k
  proof -
    from U[OF that] obtain q where "findById k ps = Some q" "creator q = j" by blast
    then show ?thesis by (cases "k = i") (simp_all add: findById_updateOne)
  qed
  ultimately show ?thesis unfolding integrity_db_iff by blast
qed

lemma integrity_db_delete:
  assumes inv: "integrity_db ps us"
    and plc: "findById i ps = Some p"
    and usr: "findById (creator p) us = Some u"
  shows "integrity_db (deleteOne i ps)
           (updateOne (creator p) (\<lambda>d. d\<lparr>places := removeAll i (places u)\<rparr>) us)"
proof -
  let ?us = "updateOne (creator p) (\<lambda>d. d\<lparr>places := removeAll i (places u)\<rparr>) us"
  from inv have P: "\<And>k q. (k, q) \<in> set ps \<Longrightarrow>
      \<exists>v. findById (creator q) us = Some v \<and> k \<in> set (places v)"
    and U: "\<And>j v k. (j, v) \<in> set us \<Longrightarrow> k \<in> set (places v) \<Longrightarrow>
      \<exists>q. findById k ps = Some q \<and> creator q = j"
    by (auto simp: integrity_db_iff)
  have "\<exists>v. findById (creator q) ?us = Some v \<and> k \<in> set (places v)"
    if "(k, q) \<in> set (deleteOne i ps)" for k q
  proof -
    from that have k: "k \<noteq> i" "(k, q) \<in> set ps" by (auto simp: in_set_deleteOne)
    from P[OF k(2)] obtain v where "findById (creator q) us = Some v" "k \<in> set (places v)"
      by blast
    then show ?thesis using k(1) usr by (auto simp: findById_updateOne)
  qed
  moreover have "\<exists>q. findById k (deleteOne i ps) = Some q \<and> creator q = j"
    if "(j, v) \<in> set ?us" "k \<in> set (places v)" for j v k
  proof -
    from that(1) consider
      (other) "j \<noteq> creator p" "(j, v) \<in> set us"
      | (same) d0 where "j = creator p" "v = d0\<lparr>places := removeAll i (places u)\<rparr>"
      by (auto simp: in_set_updateOne)
    then show ?thesis
    proof cases
      case other
      from U[OF other(2) that(2)] obtain q where q: "findById k ps = Some q" "creator q = j"
        by blast
      with other(1) plc have "k \<noteq> i" by auto
      with q show ?thesis by (simp add: findById_deleteOne)
    next
      case same
      with that(2) have k: "k \<noteq> i" "k \<in> set (places u)" by auto
      from U[OF findById_SomeD[OF usr] k(2)] show ?thesis
        using k(1) same(1) by (simp add: findById_deleteOne)
    qed
  qed
  ultimately show ?thesis unfolding integrity_db_iff by blast
qed

section \<open>What each write phase leaves behind\<close>

lemma createPlace_transaction_fails:
  "createPlace_transaction e i cp uid u w = (False, w') \<Longrightarrow>
     Place_docs w' = Place_docs w \<and> User_docs w' = User_docs w \<and>
     imagekit_files w' = imagekit_files w"
  by (auto simp: createPlace_transaction_def Let_def called_def
           split: if_splits option.splits)

lemma createPlace_transaction_commits:
  "createPlace_transaction e i cp uid u w = (True, w') \<Longrightarrow>
     i \<notin> fst ` set (Place_docs w) \<and>
     w' = w\<lparr>trace := trace w @ [Db startSession, Db startTransaction, Db Place_save,
                                Db User_save, Db commitTransaction],
            Place_docs := Place_docs w @ [(i, cp)],
            User_docs := updateOne uid (\<lambda>d. d\<lparr>places := places u @ [i]\<rparr>) (User_docs w)\<rparr>"
  by (auto simp: createPlace_transaction_def Let_def called_def insertOne_def
           split: if_splits option.splits)

lemma createPlace_transaction_ok_iff:
  "fst (createPlace_transaction e i cp uid u w) \<longleftrightarrow>
     \<not> throws e startSession \<and> \<not> throws e startTransaction \<and> \<not> throws e Place_save \<and>
     i \<notin> fst ` set (Place_docs w) \<and> \<not> throws e User_save \<and> \<not> throws e commitTransaction"
  by (auto simp: createPlace_transaction_def Let_def called_def insertOne_def
           split: if_splits option.splits)

lemma deletePlace_transaction_fails:
  "deletePlace_transaction e i cid u w = (False, w') \<Longrightarrow>
     Place_docs w' = Place_docs w \<and> User_docs w' = User_docs w \<and>
     imagekit_files w' = imagekit_files w"
  by (auto simp: deletePlace_transaction_def Let_def called_def split: if_splits)

lemma deletePlace_transaction_commits:
  "deletePlace_transaction e i cid u w = (True, w') \<Longrightarrow>
     w' = w\<lparr>trace := trace w @ [Db startSession, Db startTransaction, Db Place_remove,
                                Db User_save, Db commitTransaction],
            Place_docs := deleteOne i (Place_docs w),
            User_docs := updateOne cid (\<lambda>d. d\<lparr>places := removeAll i (places u)\<rparr>) (User_docs w)\<rparr>"
  by (auto simp: deletePlace_transaction_def Let_def called_def split: if_splits)

lemma createPlace_outcome:
  assumes "createPlace e errs t d a f uid w = (out, w')"
  shows "(Place_docs w' = Place_docs w \<and> User_docs w' = User_docs w \<and>
          (\<forall>s b. out \<noteq> Responded s b)) \<or>
         (\<exists>c buf imageUrl fid u.
            errs = [] \<and> getCoordinatesForAddress e a = Inr c \<and> f = Some buf \<and>
            imagekit_upload e buf (toLowerCase t) = Inr (imageUrl, fid) \<and>
            \<not> throws e User_findById \<and> findById uid (User_docs w) = Some u \<and>
            new_ObjectId e \<notin> fst ` set (Place_docs w) \<and>
            (\<exists>b. out = Responded 201 b) \<and>
            Place_docs w' = Place_docs w @
              [(new_ObjectId e,
                \<lparr>title = t, description = d,
                 image = \<lparr>url = Some imageUrl, fileId = Some fid\<rparr>,
                 address = coordinates.address c,
                 location = \<lparr>lat = lat c, lng = lng c\<rparr>, creator = uid\<rparr>)] \<and>
            User_docs w' =
              updateOne uid (\<lambda>d. d\<lparr>places := places u @ [new_ObjectId e]\<rparr>) (User_docs w) \<and>
            imagekit_files w' = imagekit_files w @ [fid] \<and>
            trace w' = trace w @
              [GetCoordinates a, ImagekitUpload buf (toLowerCase t), Db User_findById,
               Db startSession, Db startTransaction, Db Place_save, Db User_save,
               Db commitTransaction])"
  using assms
  by (auto simp: createPlace_def Let_def called_def select_user_def
           split: if_splits sum.splits option.splits prod.splits bool.splits
           dest!: createPlace_transaction_fails createPlace_transaction_commits)

lemma updatePlace_outcome:
  assumes "updatePlace e errs pid t d uid w = (out, w')"
  shows "(Place_docs w' = Place_docs w \<and> User_docs w' = User_docs w \<and>
          (\<forall>s b. out \<noteq> Responded s b)) \<or>
         (\<exists>p. errs = [] \<and> findById pid (Place_docs w) = Some p \<and> creator p = uid \<and>
            (\<exists>b. out = Responded 200 b) \<and>
            Place_docs w' =
              updateOne pid (\<lambda>x. x\<lparr>title := t, description := d\<rparr>) (Place_docs w) \<and>
            User_docs w' = User_docs w \<and> imagekit_files w' = imagekit_files w)"
  using assms
  by (auto simp: updatePlace_def Let_def called_def select_place_def
           split: if_splits option.splits)

lemma deletePlace_outcome:
  assumes "deletePlace e pid uid w = (out, w')"
  shows "(Place_docs w' = Place_docs w \<and> User_docs w' = User_docs w \<and>
          (\<forall>s b. out \<noteq> Responded s b)) \<or>
         (\<exists>p u. findById pid (Place_docs w) = Some p \<and> creator p = uid \<and>
            findById uid (User_docs w) = Some u \<and>
            out = Responded 200 (JObject [(''message'', JString ''Deleted place.'')]) \<and>
            Place_docs w' = deleteOne pid (Place_docs w) \<and>
            User_docs w' =
              updateOne uid (\<lambda>x. x\<lparr>places := removeAll pid (places u)\<rparr>) (User_docs w))"
  using assms
  by (auto simp: deletePlace_def Let_def called_def select_user_def populate_creator_def
           split: if_splits option.splits prod.splits bool.splits
           dest!: deletePlace_transaction_fails deletePlace_transaction_commits)

section \<open>What a serialised document shows\<close>

lemma res_json_undefined: "res_json v = JUndefined \<longleftrightarrow> v = JUndefined"
  by (cases v) auto

lemma has_key_res_json: "has_key k (res_json v) \<Longrightarrow> has_key k v"
proof (induction v)
  case (JArray xs)
  then show ?case by (auto simp: list_ex_iff split: if_splits)
next
  case (JObject kvs)
  from JObject.prems obtain k' v
    where kv: "(k', v) \<in> set kvs" "k' = k \<or> has_key k (res_json v)"
    by (auto simp: list_ex_iff)
  have "k' = k \<or> has_key k v" using kv JObject.IH[of "(k', v)" v] by auto
  then show ?case using kv(1) by (force simp: list_ex_iff)
qed simp_all

lemma no_secret_res_json: "no_secret v \<Longrightarrow> no_secret (res_json v)"
  unfolding no_secret_def using has_key_res_json by blast

lemma no_secret_image: "fileId img = None \<Longrightarrow> no_secret (image_toObject img)"
  by (simp add: no_secret_def image_toObject_def split: option.splits)

lemma no_secret_place:
  "fileId (image p) = None \<Longrightarrow> no_secret c \<Longrightarrow> no_secret (place_toObject i p c)"
  using no_secret_image[of "image p"]
  by (simp add: no_secret_def place_toObject_def)

lemma no_secret_user:
  "password u = None \<Longrightarrow> fileId (user.image u) = None \<Longrightarrow> \<forall>v \<in> set vs. no_secret v \<Longrightarrow>
   no_secret (user_toObject i u vs)"
  using no_secret_image[of "user.image u"]
  by (auto simp: no_secret_def user_toObject_def list_ex_iff)

lemma no_secret_JString: "no_secret (JString s)"
  by (simp add: no_secret_def)

lemma select_place_hidden: "fileId (image (select_place p)) = None"
  by (simp add: select_place_def)

lemma select_user_hidden:
  "password (select_user u) = None" "fileId (user.image (select_user u)) = None"
  by (simp_all add: select_user_def)

lemma no_secret_member:
  "k \<noteq> ''fileId'' \<Longrightarrow> k \<noteq> ''password'' \<Longrightarrow> no_secret v \<Longrightarrow> no_secret (JObject [(k, v)])"
  by (simp add: no_secret_def)

lemma no_secret_JArray: "\<forall>v \<in> set vs. no_secret v \<Longrightarrow> no_secret (JArray vs)"
  by (auto simp: no_secret_def list_ex_iff)

lemma getAllPlaces_no_secret:
  assumes "fst (getAllPlaces e w) = Responded s b"
  shows "no_secret b"
proof -
  have creator_value: "no_secret (case populate_creator us p of None \<Rightarrow> JNull
        | Some u \<Rightarrow> user_toObject j u (map JString (places u)))" for us p j
    by (auto simp: populate_creator_def select_user_hidden no_secret_JString
             intro!: no_secret_user split: option.splits)
       (simp add: no_secret_def)
  from assms have "b = res_json (JObject [(''places'',
      JArray (map (\<lambda>(i, p, c).
                  place_toObject i p
                    (case c of None \<Rightarrow> JNull
                     | Some u \<Rightarrow> user_toObject (creator p) u (map JString (places u))))
        (map (\<lambda>(i, p). (i, select_place p, populate_creator (User_docs (called (Db Place_find) w)) p))
                         (Place_docs (called (Db Place_find) w)))))])"
    by (auto simp: getAllPlaces_def Let_def simp del: res_json.simps split: if_splits)
  moreover have "no_secret (JObject [(''places'',
      JArray (map (\<lambda>(i, p, c).
                  place_toObject i p
                    (case c of None \<Rightarrow> JNull
                     | Some u \<Rightarrow> user_toObject (creator p) u (map JString (places u))))
        (map (\<lambda>(i, p). (i, select_place p, populate_creator (User_docs (called (Db Place_find) w)) p))
                         (Place_docs (called (Db Place_find) w)))))])"
    using creator_value
    by (auto intro!: no_secret_member no_secret_JArray no_secret_place
             simp: select_place_hidden select_place_def)
  ultimately show ?thesis by (simp only: no_secret_res_json)
qed

lemma getPlaceById_no_secret:
  assumes "fst (getPlaceById e pid w) = Responded s b"
  shows "no_secret b"
  using assms
  by (auto simp: getPlaceById_def Let_def select_place_hidden no_secret_JString
           simp del: res_json.simps
           intro!: no_secret_res_json no_secret_member no_secret_place
           split: if_splits option.splits)

lemma populate_places_hidden:
  "(j, p) \<in> set (populate_places ps u) \<Longrightarrow> fileId (image p) = None"
  by (auto simp: populate_places_def List.map_filter_def select_place_hidden)

lemma getPlacesByUserId_no_secret:
  assumes "fst (getPlacesByUserId e username w) = Responded s b"
  shows "no_secret b"
  using assms
  by (auto simp: getPlacesByUserId_def Let_def select_user_hidden no_secret_JString
           simp del: res_json.simps
           intro!: no_secret_res_json no_secret_member no_secret_user no_secret_place
           dest: populate_places_hidden
           split: if_splits option.splits prod.splits)

lemma updatePlace_no_secret:
  assumes "fst (updatePlace e errs pid t d uid w) = Responded s b"
  shows "no_secret b"
  using assms
  by (auto simp: updatePlace_def Let_def select_place_def no_secret_JString
           simp del: res_json.simps
           intro!: no_secret_res_json no_secret_member no_secret_place
           split: if_splits option.splits)

lemma deletePlace_no_secret:
  assumes "fst (deletePlace e pid uid w) = Responded s b"
  shows "no_secret b"
proof -
  obtain w' where "deletePlace e pid uid w = (Responded s b, w')"
    using assms by (cases "deletePlace e pid uid w") simp
  from deletePlace_outcome[OF this] show ?thesis by (auto simp: no_secret_def)
qed

lemma createPlace_body:
  assumes "fst (createPlace e errs t d a f uid w) = Responded s b"
  shows "no_secret b \<and>
         (\<exists>buf imageUrl fid. f = Some buf \<and>
            imagekit_upload e buf (toLowerCase t) = Inr (imageUrl, fid) \<and>
            get_prop ''image'' (get_prop ''place'' b) = JObject [(''url'', JString imageUrl)])"
  using assms
  by (auto simp: createPlace_def Let_def place_toObject_def image_toObject_def no_secret_def
           split: if_splits sum.splits option.splits prod.splits bool.splits)

lemma no_secret_body_of:
  "(\<And>s b. out = Responded s b \<Longrightarrow> no_secret b) \<Longrightarrow> no_secret (body_of out)"
  by (cases out) (simp_all add: body_of_def no_secret_def)

lemma respondedE: "responded out \<Longrightarrow> (\<And>s b. out = Responded s b \<Longrightarrow> P) \<Longrightarrow> P"
  by (cases out) (simp_all add: responded_def)

section \<open>Runs on the example database\<close>

lemma integrity_world0: "integrity world0"
  by (simp add: integrity_def integrity_db_def example_defs findById_def)

lemma createPlace_world0:
  "responded (fst (createPlace env0 [] ''Tower'' ''Tall'' ''Paris'' (Some ''bytes'') ''u2'' world0))"
  by (simp add: createPlace_def createPlace_transaction_def example_defs called_def findById_def
      insertOne_def Let_def responded_def)

lemma updatePlace_world0:
  "responded (fst (updatePlace env0 [] ''p1'' ''Offices'' ''HQ'' ''u1'' world0))"
  by (simp add: updatePlace_def example_defs called_def findById_def select_place_def Let_def responded_def)

lemma deletePlace_world0:
  "responded (fst (deletePlace env0 ''p1'' ''u1'' world0))"
  by (simp add: deletePlace_def deletePlace_transaction_def example_defs called_def findById_def
       populate_creator_def Let_def responded_def)

lemma unused_p2_world0: "unused_ObjectId (new_ObjectId env0) world0"
  by (simp add: unused_ObjectId_def example_defs)

lemma createPlace_world0_value:
  "createPlace env0 [] ''Tower'' ''Tall'' ''Paris'' (Some ''bytes'') ''u2'' world0 =
     (Responded 201
        (JObject [(''place'',
           JObject [(''_id'', JString ''p2''), (''title'', JString ''Tower''),
                    (''description'', JString ''Tall''),
                    (''image'', JObject [(''url'', JString ''https://ik.imagekit.io/places/tower'')]),
                    (''address'', JString ''Champ de Mars''),
                    (''location'', JObject [(''lat'', JString ''48.858''), (''lng'', JString ''2.294'')]),
                    (''creator'', JString ''u2''), (''id'', JString ''p2'')])]),
      snd (createPlace env0 [] ''Tower'' ''Tall'' ''Paris'' (Some ''bytes'') ''u2'' world0))"
  by (simp add: createPlace_def createPlace_transaction_def example_defs called_def findById_def
      insertOne_def Let_def place_toObject_def image_toObject_def select_user_def toLowerCase_def)

lemma findById_p1_world0: "findById ''p1'' (Place_docs world0) = Some office"
  by (simp add: findById_def example_defs)

lemma getAllPlaces_world0: "responded (fst (getAllPlaces env0 world0))"
  by (simp add: getAllPlaces_def example_defs called_def not_array_def responded_def)

lemma getPlaceById_world0: "responded (fst (getPlaceById env0 ''p1'' world0))"
  by (simp add: getPlaceById_def example_defs called_def findById_def responded_def)

lemma getPlacesByUserId_world0: "responded (fst (getPlacesByUserId env0 ''ann'' world0))"
  by (simp add: getPlacesByUserId_def example_defs called_def findById_def responded_def
      populate_places_def List.map_filter_def select_user_def Let_def)

section \<open>Where the handlers miss a case\<close>

text \<open>
  C9. Listing all places answers 404 when no places exist, and success with all places
  otherwise. On the code the first half does not hold: with no document in the collection
  the query resolves to the empty array, \<^verbatim>\<open>!places\<close> is false, and the handler answers
  200 with an empty list.
\<close>

theorem getAllPlaces_no_places:
  "getAllPlaces env0 empty_world =
     (Responded 200 (JObject [(''places'', JArray [])]),
      empty_world\<lparr>trace := [Db Place_find]\<rparr>)"
  by (simp add: getAllPlaces_def example_defs called_def not_array_def)

text \<open>
  C8. updatePlace with a place id that resolves to no place fails with a not-found error
  passed to the caller. On the code it does not: \<^verbatim>\<open>Place.findById\<close> resolves to \<^verbatim>\<open>null\<close>,
  the handler reads \<^verbatim>\<open>place.creator\<close>, and the TypeError leaves the handler uncaught; the
  handler passes no not-found error to \<^verbatim>\<open>next\<close>. Nothing is written.
\<close>

theorem updatePlace_missing_place:
  "updatePlace env0 [] ''p9'' ''T'' ''D'' ''u1'' world0 =
     (UnhandledRejection (cannot_read ''null'' ''creator''),
      world0\<lparr>trace := [Db Place_findById]\<rparr>)"
  by (simp add: updatePlace_def example_defs called_def findById_def)

section \<open>The claims\<close>

lemma createPlace_integrity:
  assumes "integrity w"
  shows "integrity (snd (createPlace e errs t d a f uid w))"
proof -
  obtain out w' where r: "createPlace e errs t d a f uid w = (out, w')"
    by (cases "createPlace e errs t d a f uid w")
  from createPlace_outcome[OF r] assms show ?thesis
    unfolding r integrity_def by (auto intro!: integrity_db_create)
qed

lemma updatePlace_integrity:
  assumes "integrity w"
  shows "integrity (snd (updatePlace e errs pid t d uid w))"
proof -
  obtain out w' where r: "updatePlace e errs pid t d uid w = (out, w')"
    by (cases "updatePlace e errs pid t d uid w")
  from updatePlace_outcome[OF r] assms show ?thesis
    unfolding r integrity_def by (auto intro!: integrity_db_update)
qed

lemma deletePlace_integrity:
  assumes "integrity w"
  shows "integrity (snd (deletePlace e pid uid w))"
proof -
  obtain out w' where r: "deletePlace e pid uid w = (out, w')"
    by (cases "deletePlace e pid uid w")
  from deletePlace_outcome[OF r] assms show ?thesis
    unfolding r integrity_def by (auto intro!: integrity_db_delete)
qed

text \<open>
  C1. Bidirectional referential integrity is preserved by every workflow: when it holds
  before a call of createPlace, updatePlace or deletePlace, it holds after the call, whether
  the call succeeded or not.
\<close>

theorem referential_integrity_preserved:
  assumes "integrity w"
  shows "integrity (snd (createPlace e errs t d a f uid w)) \<and>
         integrity (snd (updatePlace e' errs' pid t' d' uid' w)) \<and>
         integrity (snd (deletePlace e'' pid' uid'' w))"
  using assms createPlace_integrity updatePlace_integrity deletePlace_integrity by blast

theorem referential_integrity_preserved_witness:
  "integrity world0 \<and>
   responded (fst (createPlace env0 [] ''Tower'' ''Tall'' ''Paris'' (Some ''bytes'') ''u2'' world0)) \<and>
   integrity (snd (createPlace env0 [] ''Tower'' ''Tall'' ''Paris'' (Some ''bytes'') ''u2'' world0)) \<and>
   responded (fst (updatePlace env0 [] ''p1'' ''Offices'' ''HQ'' ''u1'' world0)) \<and>
   integrity (snd (updatePlace env0 [] ''p1'' ''Offices'' ''HQ'' ''u1'' world0)) \<and>
   responded (fst (deletePlace env0 ''p1'' ''u1'' world0)) \<and>
   integrity (snd (deletePlace env0 ''p1'' ''u1'' world0))"
  using referential_integrity_preserved[OF integrity_world0] integrity_world0
    createPlace_world0 updatePlace_world0 deletePlace_world0
  by blast

text \<open>
  C3. After a successful createPlace the new place names the caller as its creator, and the
  places of the caller hold the id of the new place exactly once, as one new entry at the
  end. The id is the ObjectId that \<^verbatim>\<open>new Place\<close> generated, one that occurs nowhere in the
  database.
\<close>

theorem createPlace_creator_and_membership:
  assumes ok: "createPlace e errs t d a f uid w = (Responded s b, w')"
    and fresh: "unused_ObjectId (new_ObjectId e) w"
  shows "map_option creator (findById (new_ObjectId e) (Place_docs w')) = Some uid \<and>
         map_option (\<lambda>u. count_list (places u) (new_ObjectId e)) (findById uid (User_docs w'))
           = Some 1 \<and>
         map_option places (findById uid (User_docs w'))
           = map_option (\<lambda>u. places u @ [new_ObjectId e]) (findById uid (User_docs w))"
proof -
  let ?i = "new_ObjectId e"
  from createPlace_outcome[OF ok] obtain cp u where
    u: "findById uid (User_docs w) = Some u"
    and cp: "creator cp = uid"
    and ps: "Place_docs w' = Place_docs w @ [(?i, cp)]"
    and us: "User_docs w' = updateOne uid (\<lambda>x. x\<lparr>places := places u @ [?i]\<rparr>) (User_docs w)"
    by fastforce
  from fresh have none: "findById ?i (Place_docs w) = None"
    by (simp add: unused_ObjectId_def findById_None_iff)
  from fresh findById_SomeD[OF u] have "?i \<notin> set (places u)"
    by (auto simp: unused_ObjectId_def)
  then have "count_list (places u @ [?i]) ?i = 1" by simp
  then show ?thesis using none u cp by (simp add: ps us findById_snoc findById_updateOne)
qed

theorem createPlace_creator_and_membership_witness:
  "unused_ObjectId (new_ObjectId env0) world0 \<and>
   responded (fst (createPlace env0 [] ''Tower'' ''Tall'' ''Paris'' (Some ''bytes'') ''u2'' world0)) \<and>
   map_option creator (findById ''p2''
     (Place_docs (snd (createPlace env0 [] ''Tower'' ''Tall'' ''Paris'' (Some ''bytes'') ''u2'' world0))))
     = Some ''u2'' \<and>
   map_option (\<lambda>u. count_list (places u) ''p2'') (findById ''u2''
     (User_docs (snd (createPlace env0 [] ''Tower'' ''Tall'' ''Paris'' (Some ''bytes'') ''u2'' world0))))
     = Some 1"
  using createPlace_creator_and_membership[OF createPlace_world0_value unused_p2_world0]
    unused_p2_world0 createPlace_world0
  by (simp add: env0_def)

text \<open>
  C2. When the write phase of createPlace fails at any point (opening the session, starting
  the transaction, saving the place, which also fails on a taken \<^verbatim>\<open>_id\<close>, saving the user,
  or the commit), neither collection has changed afterwards, and the caller gets the
  one generic creation failure.
\<close>

theorem createPlace_write_phase_failure:
  assumes valid: "errs = []"
    and geo: "getCoordinatesForAddress e a = Inr c"
    and buffer: "f = Some buf"
    and up: "imagekit_upload e buf (toLowerCase t) = Inr (imageUrl, fid)"
    and usr: "\<not> throws e User_findById" "findById uid (User_docs w) = Some u"
    and fails: "throws e startSession \<or> throws e startTransaction \<or> throws e Place_save \<or>
                new_ObjectId e \<in> fst ` set (Place_docs w) \<or> throws e User_save \<or>
                throws e commitTransaction"
  shows "fst (createPlace e errs t d a f uid w) =
           NextError (HttpError ''Creating place failed, please try again.'' 500) \<and>
         Place_docs (snd (createPlace e errs t d a f uid w)) = Place_docs w \<and>
         User_docs (snd (createPlace e errs t d a f uid w)) = User_docs w"
proof -
  let ?cp = "\<lparr>title = t, description = d, image = \<lparr>url = Some imageUrl, fileId = Some fid\<rparr>,
              address = coordinates.address c, location = \<lparr>lat = lat c, lng = lng c\<rparr>,
              creator = uid\<rparr>"
  let ?w4 = "called (Db User_findById)
               ((called (ImagekitUpload buf (toLowerCase t)) (called (GetCoordinates a) w))
                  \<lparr>imagekit_files := imagekit_files w @ [fid]\<rparr>)"
  obtain ok w5 where tx:
    "createPlace_transaction e (new_ObjectId e) ?cp uid (select_user u) ?w4 = (ok, w5)"
    by (cases "createPlace_transaction e (new_ObjectId e) ?cp uid (select_user u) ?w4")
  have w4: "Place_docs ?w4 = Place_docs w" "User_docs ?w4 = User_docs w"
    by (simp_all add: called_def)
  from fails have "\<not> fst (createPlace_transaction e (new_ObjectId e) ?cp uid (select_user u) ?w4)"
    unfolding createPlace_transaction_ok_iff w4 by blast
  with tx have nok: "ok = False" by simp
  from createPlace_transaction_fails[OF tx[unfolded nok]] w4
  have same: "Place_docs w5 = Place_docs w" "User_docs w5 = User_docs w" by simp_all
  have "createPlace e errs t d a f uid w =
          (NextError (HttpError ''Creating place failed, please try again.'' 500), w5)"
    using valid geo buffer up usr tx nok
    by (simp add: createPlace_def Let_def called_def)
  then show ?thesis using same by simp
qed

theorem createPlace_write_phase_failure_witness:
  "throws env_user_save_fails User_save \<and>
   fst (createPlace env_user_save_fails [] ''Tower'' ''Tall'' ''Paris'' (Some ''bytes'') ''u2'' world0) =
     NextError (HttpError ''Creating place failed, please try again.'' 500) \<and>
   Place_docs (snd (createPlace env_user_save_fails [] ''Tower'' ''Tall'' ''Paris'' (Some ''bytes'') ''u2'' world0))
     = [(''p1'', office)] \<and>
   User_docs (snd (createPlace env_user_save_fails [] ''Tower'' ''Tall'' ''Paris'' (Some ''bytes'') ''u2'' world0))
     = [(''u1'', ann), (''u2'', bob)]"
  using createPlace_write_phase_failure[where errs = "[]" and e = env_user_save_fails
      and a = "''Paris''"
      and c = "\<lparr>lat = ''48.858'', lng = ''2.294'', coordinates.address = ''Champ de Mars''\<rparr>"
      and f = "Some ''bytes''" and buf = "''bytes''" and t = "''Tower''"
      and imageUrl = "''https://ik.imagekit.io/places/tower''" and fid = "''f2''"
      and uid = "''u2''" and w = world0 and u = bob and d = "''Tall''"]
  by (simp add: env_user_save_fails_def env0_def world0_def findById_def toLowerCase_def)

text \<open>
  C4. After a successful deletePlace the place is gone from its collection, it was a place
  of the caller, and the places of that owner no longer hold its id. The answer is the
  confirmation message with status 200, and the answer and both collections are the same
  whatever \<^verbatim>\<open>imagekit.deleteFile\<close> reports afterwards.
\<close>

theorem deletePlace_success:
  assumes ok: "deletePlace e pid uid w = (Responded s b, w')"
  shows "findById pid (Place_docs w') = None \<and>
         map_option creator (findById pid (Place_docs w)) = Some uid \<and>
         map_option (\<lambda>u. pid \<in> set (places u)) (findById uid (User_docs w')) = Some False \<and>
         s = 200 \<and> b = JObject [(''message'', JString ''Deleted place.'')] \<and>
         (\<forall>g. fst (deletePlace (e\<lparr>imagekit_deleteFile := g\<rparr>) pid uid w) = Responded s b \<and>
              Place_docs (snd (deletePlace (e\<lparr>imagekit_deleteFile := g\<rparr>) pid uid w)) = Place_docs w' \<and>
              User_docs (snd (deletePlace (e\<lparr>imagekit_deleteFile := g\<rparr>) pid uid w)) = User_docs w')"
proof -
  from deletePlace_outcome[OF ok] obtain p u where
    p: "findById pid (Place_docs w) = Some p" "creator p = uid"
    and u: "findById uid (User_docs w) = Some u"
    and out: "s = 200" "b = JObject [(''message'', JString ''Deleted place.'')]"
    and ps: "Place_docs w' = deleteOne pid (Place_docs w)"
    and us: "User_docs w' = updateOne uid (\<lambda>x. x\<lparr>places := removeAll pid (places u)\<rparr>) (User_docs w)"
    by auto
  have gone: "findById pid (Place_docs w') = None" by (simp add: ps findById_deleteOne)
  have owner: "map_option (\<lambda>u. pid \<in> set (places u)) (findById uid (User_docs w')) = Some False"
    using u by (simp add: us findById_updateOne)
  have indep: "fst (deletePlace (e\<lparr>imagekit_deleteFile := g\<rparr>) pid uid w) = Responded s b \<and>
      Place_docs (snd (deletePlace (e\<lparr>imagekit_deleteFile := g\<rparr>) pid uid w)) = Place_docs w' \<and>
      User_docs (snd (deletePlace (e\<lparr>imagekit_deleteFile := g\<rparr>) pid uid w)) = User_docs w'" for g
  proof -
    have tx: "deletePlace_transaction (e\<lparr>imagekit_deleteFile := g\<rparr>) i c v x =
              deletePlace_transaction e i c v x" for i c v x
      by (simp add: deletePlace_transaction_def Let_def)
    from ok show ?thesis
      by (auto simp: deletePlace_def Let_def tx split: if_splits option.splits prod.splits bool.splits)
  qed
  from gone owner p out indep show ?thesis by simp
qed

theorem deletePlace_success_witness:
  "responded (fst (deletePlace env0 ''p1'' ''u1'' world0)) \<and>
   findById ''p1'' (Place_docs (snd (deletePlace env0 ''p1'' ''u1'' world0))) = None \<and>
   map_option (\<lambda>u. ''p1'' \<in> set (places u))
     (findById ''u1'' (User_docs (snd (deletePlace env0 ''p1'' ''u1'' world0)))) = Some False \<and>
   fst (deletePlace (env0\<lparr>imagekit_deleteFile := (\<lambda>f. True)\<rparr>) ''p1'' ''u1'' world0) =
     Responded 200 (JObject [(''message'', JString ''Deleted place.'')])"
proof -
  obtain s b w' where r: "deletePlace env0 ''p1'' ''u1'' world0 = (Responded s b, w')"
    using deletePlace_world0
    by (cases "deletePlace env0 ''p1'' ''u1'' world0")
       (auto simp: responded_def split: outcome.splits)
  from deletePlace_success[OF r] show ?thesis using deletePlace_world0 by (simp add: r)
qed

text \<open>
  C5. createPlace calls the geocoder, then the upload, then the database. When the geocoder
  fails, its error goes to the caller and the geocoder call is the only thing that happened:
  no upload, no database call, no document written. When the upload fails, the caller gets
  its message with status 500 after the geocoder call and the upload call only: no database
  call, no document written. A call that succeeds has made its calls in the order geocoder,
  upload, user lookup, session, transaction, place save, user save, commit.
\<close>

theorem createPlace_ordering:
  "(errs = [] \<and> getCoordinatesForAddress e a = Inl err \<longrightarrow>
      createPlace e errs t d a f uid w =
        (NextError err, w\<lparr>trace := trace w @ [GetCoordinates a]\<rparr>)) \<and>
   (errs = [] \<and> getCoordinatesForAddress e a = Inr c \<and> f = Some buf \<and>
    imagekit_upload e buf (toLowerCase t) = Inl msg \<longrightarrow>
      createPlace e errs t d a f uid w =
        (NextError (HttpError msg 500),
         w\<lparr>trace := trace w @ [GetCoordinates a, ImagekitUpload buf (toLowerCase t)]\<rparr>)) \<and>
   (createPlace e errs t d a f uid w = (Responded s b, w') \<longrightarrow>
      (\<exists>buf'. f = Some buf' \<and>
         trace w' = trace w @
           [GetCoordinates a, ImagekitUpload buf' (toLowerCase t), Db User_findById,
            Db startSession, Db startTransaction, Db Place_save, Db User_save,
            Db commitTransaction]))"
proof (intro conjI impI)
  assume "errs = [] \<and> getCoordinatesForAddress e a = Inl err"
  then show "createPlace e errs t d a f uid w =
      (NextError err, w\<lparr>trace := trace w @ [GetCoordinates a]\<rparr>)"
    by (simp add: createPlace_def Let_def called_def)
next
  assume "errs = [] \<and> getCoordinatesForAddress e a = Inr c \<and> f = Some buf \<and>
    imagekit_upload e buf (toLowerCase t) = Inl msg"
  then show "createPlace e errs t d a f uid w =
      (NextError (HttpError msg 500),
       w\<lparr>trace := trace w @ [GetCoordinates a, ImagekitUpload buf (toLowerCase t)]\<rparr>)"
    by (simp add: createPlace_def Let_def called_def)
next
  assume "createPlace e errs t d a f uid w = (Responded s b, w')"
  from createPlace_outcome[OF this]
  show "\<exists>buf'. f = Some buf' \<and>
         trace w' = trace w @
           [GetCoordinates a, ImagekitUpload buf' (toLowerCase t), Db User_findById,
            Db startSession, Db startTransaction, Db Place_save, Db User_save,
            Db commitTransaction]"
    by auto
qed

theorem createPlace_ordering_witness:
  "createPlace env_geocode_fails [] ''Tower'' ''Tall'' ''Nowhere'' (Some ''bytes'') ''u2'' world0 =
     (NextError (HttpError ''No location for that address.'' 422),
      world0\<lparr>trace := [GetCoordinates ''Nowhere'']\<rparr>) \<and>
   createPlace env_upload_fails [] ''Tower'' ''Tall'' ''Paris'' (Some ''bytes'') ''u2'' world0 =
     (NextError (HttpError ''Upload failed'' 500),
      world0\<lparr>trace := [GetCoordinates ''Paris'', ImagekitUpload ''bytes'' ''tower'']\<rparr>) \<and>
   trace (snd (createPlace env0 [] ''Tower'' ''Tall'' ''Paris'' (Some ''bytes'') ''u2'' world0)) =
     [GetCoordinates ''Paris'', ImagekitUpload ''bytes'' ''tower'', Db User_findById,
      Db startSession, Db startTransaction, Db Place_save, Db User_save, Db commitTransaction]"
proof -
  have lower: "toLowerCase ''Tower'' = ''tower''" by code_simp
  have tr: "trace world0 = []" by (simp add: world0_def)
  have g: "createPlace env_geocode_fails [] ''Tower'' ''Tall'' ''Nowhere'' (Some ''bytes'') ''u2'' world0 =
     (NextError (HttpError ''No location for that address.'' 422),
      world0\<lparr>trace := [GetCoordinates ''Nowhere'']\<rparr>)"
    using createPlace_ordering[where e = env_geocode_fails and errs = "[]" and a = "''Nowhere''"
        and err = "HttpError ''No location for that address.'' 422" and w = world0
        and t = "''Tower''" and d = "''Tall''" and f = "Some ''bytes''" and uid = "''u2''"]
    by (simp add: env_geocode_fails_def env0_def tr)
  have u: "createPlace env_upload_fails [] ''Tower'' ''Tall'' ''Paris'' (Some ''bytes'') ''u2'' world0 =
     (NextError (HttpError ''Upload failed'' 500),
      world0\<lparr>trace := [GetCoordinates ''Paris'', ImagekitUpload ''bytes'' ''tower'']\<rparr>)"
    using createPlace_ordering[where e = env_upload_fails and errs = "[]" and a = "''Paris''"
        and c = "\<lparr>lat = ''48.858'', lng = ''2.294'', coordinates.address = ''Champ de Mars''\<rparr>"
        and w = world0 and buf = "''bytes''" and msg = "''Upload failed''"
        and t = "''Tower''" and d = "''Tall''" and f = "Some ''bytes''" and uid = "''u2''"]
    by (simp add: env_upload_fails_def env0_def tr lower)
  have s: "trace (snd (createPlace env0 [] ''Tower'' ''Tall'' ''Paris'' (Some ''bytes'') ''u2'' world0)) =
     [GetCoordinates ''Paris'', ImagekitUpload ''bytes'' ''tower'', Db User_findById,
      Db startSession, Db startTransaction, Db Place_save, Db User_save, Db commitTransaction]"
    using createPlace_ordering[where e = env0 and errs = "[]" and a = "''Paris''"
        and w = world0 and t = "''Tower''" and d = "''Tall''" and f = "Some ''bytes''"
        and uid = "''u2''"
        and w' = "snd (createPlace env0 [] ''Tower'' ''Tall'' ''Paris'' (Some ''bytes'') ''u2'' world0)"]
      createPlace_world0_value
    by (simp add: tr lower)
  from g u s show ?thesis by simp
qed

text \<open>
  C10. When geocoding and upload succeed and the caller id resolves to no user (the lookup
  throws or finds none), createPlace fails with the creator-not-found error after the
  upload: the image store holds the new file, the user lookup is the only database call,
  and no document is written.
\<close>

theorem createPlace_creator_missing:
  assumes valid: "errs = []"
    and geo: "getCoordinatesForAddress e a = Inr c"
    and buffer: "f = Some buf"
    and up: "imagekit_upload e buf (toLowerCase t) = Inr (imageUrl, fid)"
    and nobody: "throws e User_findById \<or> findById uid (User_docs w) = None"
  shows "createPlace e errs t d a f uid w =
           (NextError (HttpError ''Could not find a user with the provided id.'' 404),
            w\<lparr>imagekit_files := imagekit_files w @ [fid],
              trace := trace w @ [GetCoordinates a, ImagekitUpload buf (toLowerCase t),
                                  Db User_findById]\<rparr>)"
  using assms by (auto simp: createPlace_def Let_def called_def)

theorem createPlace_creator_missing_witness:
  "findById ''u9'' (User_docs world0) = None \<and>
   createPlace env0 [] ''Tower'' ''Tall'' ''Paris'' (Some ''bytes'') ''u9'' world0 =
     (NextError (HttpError ''Could not find a user with the provided id.'' 404),
      world0\<lparr>imagekit_files := [''f0'', ''f1'', ''f2''],
             trace := [GetCoordinates ''Paris'', ImagekitUpload ''bytes'' ''tower'',
                       Db User_findById]\<rparr>)"
proof -
  have lower: "toLowerCase ''Tower'' = ''tower''" by code_simp
  have nobody: "findById ''u9'' (User_docs world0) = None"
    by (simp add: findById_def example_defs)
  show ?thesis
    using nobody createPlace_creator_missing[where e = env0 and errs = "[]" and a = "''Paris''"
        and c = "\<lparr>lat = ''48.858'', lng = ''2.294'', coordinates.address = ''Champ de Mars''\<rparr>"
        and w = world0 and buf = "''bytes''" and t = "''Tower''" and d = "''Tall''"
        and f = "Some ''bytes''" and uid = "''u9''"
        and imageUrl = "''https://ik.imagekit.io/places/tower''" and fid = "''f2''"]
    by (simp add: env0_def lower world0_def)
qed

text \<open>
  C6. A caller who is not the creator of the place cannot update or delete it. Once the
  place is loaded (for updatePlace the request passed validation and the query did not
  throw; for deletePlace the query did not throw and the creator was populated), the
  handler passes the 401 error before any write call. In every case the handler sends no
  response and both collections stay as they were.
\<close>

theorem non_owner_is_refused:
  assumes plc: "findById pid (Place_docs w) = Some p"
    and other: "creator p \<noteq> uid"
  shows "(errs = [] \<and> \<not> throws e Place_findById \<longrightarrow>
            updatePlace e errs pid t d uid w =
              (NextError (HttpError ''You are not allowed to edit this place.'' 401),
               w\<lparr>trace := trace w @ [Db Place_findById]\<rparr>)) \<and>
         \<not> responded (fst (updatePlace e errs pid t d uid w)) \<and>
         Place_docs (snd (updatePlace e errs pid t d uid w)) = Place_docs w \<and>
         User_docs (snd (updatePlace e errs pid t d uid w)) = User_docs w \<and>
         (\<not> throws e' Place_findById \<and> findById (creator p) (User_docs w) \<noteq> None \<longrightarrow>
            deletePlace e' pid uid w =
              (NextError (HttpError ''You are not allowed to delete this place.'' 401),
               w\<lparr>trace := trace w @ [Db Place_findById]\<rparr>)) \<and>
         \<not> responded (fst (deletePlace e' pid uid w)) \<and>
         Place_docs (snd (deletePlace e' pid uid w)) = Place_docs w \<and>
         User_docs (snd (deletePlace e' pid uid w)) = User_docs w"
proof -
  have upd: "errs = [] \<and> \<not> throws e Place_findById \<longrightarrow>
      updatePlace e errs pid t d uid w =
        (NextError (HttpError ''You are not allowed to edit this place.'' 401),
         w\<lparr>trace := trace w @ [Db Place_findById]\<rparr>)"
    using plc other by (simp add: updatePlace_def Let_def called_def select_place_def)
  have del: "\<not> throws e' Place_findById \<and> findById (creator p) (User_docs w) \<noteq> None \<longrightarrow>
      deletePlace e' pid uid w =
        (NextError (HttpError ''You are not allowed to delete this place.'' 401),
         w\<lparr>trace := trace w @ [Db Place_findById]\<rparr>)"
    using plc other by (auto simp: deletePlace_def Let_def called_def populate_creator_def)
  obtain o1 w1 where r1: "updatePlace e errs pid t d uid w = (o1, w1)"
    by (cases "updatePlace e errs pid t d uid w")
  obtain o2 w2 where r2: "deletePlace e' pid uid w = (o2, w2)"
    by (cases "deletePlace e' pid uid w")
  from updatePlace_outcome[OF r1] plc other
  have u: "\<not> responded o1 \<and> Place_docs w1 = Place_docs w \<and> User_docs w1 = User_docs w"
    by (auto simp: responded_def split: outcome.splits)
  from deletePlace_outcome[OF r2] plc other
  have dl: "\<not> responded o2 \<and> Place_docs w2 = Place_docs w \<and> User_docs w2 = User_docs w"
    by (auto simp: responded_def split: outcome.splits)
  from upd del u dl show ?thesis by (simp add: r1 r2)
qed

theorem non_owner_is_refused_witness:
  "findById ''p1'' (Place_docs world0) = Some office \<and> creator office \<noteq> ''u2'' \<and>
   updatePlace env0 [] ''p1'' ''Mine'' ''Now'' ''u2'' world0 =
     (NextError (HttpError ''You are not allowed to edit this place.'' 401),
      world0\<lparr>trace := [Db Place_findById]\<rparr>) \<and>
   deletePlace env0 ''p1'' ''u2'' world0 =
     (NextError (HttpError ''You are not allowed to delete this place.'' 401),
      world0\<lparr>trace := [Db Place_findById]\<rparr>)"
proof -
  have other: "creator office \<noteq> ''u2''" by (simp add: office_def)
  have owner: "findById (creator office) (User_docs world0) \<noteq> None"
    by (simp add: findById_def example_defs)
  have quiet: "\<not> throws env0 Place_findById" by (simp add: env0_def)
  have tr: "trace world0 = []" by (simp add: world0_def)
  from non_owner_is_refused[OF findById_p1_world0 other, of "[]" env0 "''Mine''" "''Now''" env0]
    owner quiet findById_p1_world0 other
  show ?thesis by (simp add: tr)
qed

text \<open>
  C7. No response of any endpoint (list, get by id, get by owner, create, update, delete)
  has a \<^verbatim>\<open>fileId\<close> key or a \<^verbatim>\<open>password\<close> key at any depth of its body. The image object of
  a successful createPlace response is the url that the upload returned and nothing else:
  the \<^verbatim>\<open>fileId\<close> member set to \<^verbatim>\<open>undefined\<close> is left out by the serialisation.
\<close>

theorem responses_hide_fileId_and_password:
  "no_secret (body_of (fst (getAllPlaces e w))) \<and>
   no_secret (body_of (fst (getPlaceById e pid w))) \<and>
   no_secret (body_of (fst (getPlacesByUserId e username w))) \<and>
   no_secret (body_of (fst (createPlace e errs t d a f uid w))) \<and>
   no_secret (body_of (fst (updatePlace e errs pid t d uid w))) \<and>
   no_secret (body_of (fst (deletePlace e pid uid w))) \<and>
   (responded (fst (createPlace e errs t d a f uid w)) \<longrightarrow>
      (\<exists>buf imageUrl fid. f = Some buf \<and>
         imagekit_upload e buf (toLowerCase t) = Inr (imageUrl, fid) \<and>
         get_prop ''image'' (get_prop ''place'' (body_of (fst (createPlace e errs t d a f uid w))))
           = JObject [(''url'', JString imageUrl)]))"
proof -
  have "responded (fst (createPlace e errs t d a f uid w)) \<longrightarrow>
      (\<exists>buf imageUrl fid. f = Some buf \<and>
         imagekit_upload e buf (toLowerCase t) = Inr (imageUrl, fid) \<and>
         get_prop ''image'' (get_prop ''place'' (body_of (fst (createPlace e errs t d a f uid w))))
           = JObject [(''url'', JString imageUrl)])"
  proof
    assume "responded (fst (createPlace e errs t d a f uid w))"
    then obtain s b where r: "fst (createPlace e errs t d a f uid w) = Responded s b"
      by (rule respondedE)
    from createPlace_body[OF r] show "\<exists>buf imageUrl fid. f = Some buf \<and>
         imagekit_upload e buf (toLowerCase t) = Inr (imageUrl, fid) \<and>
         get_prop ''image'' (get_prop ''place'' (body_of (fst (createPlace e errs t d a f uid w))))
           = JObject [(''url'', JString imageUrl)]"
      by (simp add: r body_of_def)
  qed
  moreover have "no_secret (body_of (fst (getAllPlaces e w)))"
    by (rule no_secret_body_of) (rule getAllPlaces_no_secret)
  moreover have "no_secret (body_of (fst (getPlaceById e pid w)))"
    by (rule no_secret_body_of) (rule getPlaceById_no_secret)
  moreover have "no_secret (body_of (fst (getPlacesByUserId e username w)))"
    by (rule no_secret_body_of) (rule getPlacesByUserId_no_secret)
  moreover have "no_secret (body_of (fst (createPlace e errs t d a f uid w)))"
    by (rule no_secret_body_of) (simp add: createPlace_body)
  moreover have "no_secret (body_of (fst (updatePlace e errs pid t d uid w)))"
    by (rule no_secret_body_of) (rule updatePlace_no_secret)
  moreover have "no_secret (body_of (fst (deletePlace e pid uid w)))"
    by (rule no_secret_body_of) (rule deletePlace_no_secret)
  ultimately show ?thesis by blast
qed

theorem responses_hide_fileId_and_password_witness:
  "responded (fst (getAllPlaces env0 world0)) \<and>
   no_secret (body_of (fst (getAllPlaces env0 world0))) \<and>
   responded (fst (getPlaceById env0 ''p1'' world0)) \<and>
   no_secret (body_of (fst (getPlaceById env0 ''p1'' world0))) \<and>
   responded (fst (getPlacesByUserId env0 ''ann'' world0)) \<and>
   no_secret (body_of (fst (getPlacesByUserId env0 ''ann'' world0))) \<and>
   responded (fst (createPlace env0 [] ''Tower'' ''Tall'' ''Paris'' (Some ''bytes'') ''u2'' world0)) \<and>
   no_secret (body_of (fst (createPlace env0 [] ''Tower'' ''Tall'' ''Paris'' (Some ''bytes'') ''u2'' world0))) \<and>
   get_prop ''image'' (get_prop ''place''
     (body_of (fst (createPlace env0 [] ''Tower'' ''Tall'' ''Paris'' (Some ''bytes'') ''u2'' world0))))
     = JObject [(''url'', JString ''https://ik.imagekit.io/places/tower'')] \<and>
   responded (fst (updatePlace env0 [] ''p1'' ''Offices'' ''HQ'' ''u1'' world0)) \<and>
   no_secret (body_of (fst (updatePlace env0 [] ''p1'' ''Offices'' ''HQ'' ''u1'' world0))) \<and>
   responded (fst (deletePlace env0 ''p1'' ''u1'' world0)) \<and>
   no_secret (body_of (fst (deletePlace env0 ''p1'' ''u1'' world0)))"
proof -
  have up: "imagekit_upload env0 buf n = Inr (u, i) \<longleftrightarrow>
            u = ''https://ik.imagekit.io/places/tower'' \<and> i = ''f2''" for buf n u i
    by (auto simp: env0_def)
  from responses_hide_fileId_and_password[of env0 world0 "''p1''" "''ann''" "[]" "''Tower''"
      "''Tall''" "''Paris''" "Some ''bytes''" "''u2''"]
    responses_hide_fileId_and_password[of env0 world0 "''p1''" "''ann''" "[]" "''Offices''"
      "''HQ''" "''Paris''" "Some ''bytes''" "''u1''"]
    getAllPlaces_world0 getPlaceById_world0 getPlacesByUserId_world0 createPlace_world0
    updatePlace_world0 deletePlace_world0
  show ?thesis by (auto simp: up)
qed

end
